theory Spec2Isabelle
  imports Main
begin

unbundle bit_operations_syntax

section \<open>Errors\<close>

text \<open>
  The exceptions thrown by the services, with the arguments the source passes to their
  constructors. \<open>StoreFailure\<close> stands for an error raised by the persistence layer
  (Prisma), which the services do not catch, except \<open>PermissionRepository.delete\<close>.
\<close>

datatype error =
    EntityNotFoundException string "string option"
  | OtpExpiredException
  | OtpInvalidException
  | AuthenticationException string
  | UnauthorizedException string
  | StoreFailure string

type_synonym 'a result = "error + 'a"

section \<open>Entities\<close>

text \<open>
  Modelled from the spec: the entity classes \<open>User\<close>, \<open>Otp\<close>, \<open>RefreshToken\<close> and
  \<open>Permission\<close> are imported by the services but are not part of the source at hand; the
  fields are those of the spec's data model. Times are milliseconds since the epoch, as
  JavaScript dates are. A date computed from \<open>NaN\<close> is an invalid date: \<open>None\<close>.
\<close>

record User =
  user_id :: string
  email :: string
  otpEnabled :: bool
  otpSecret :: "string option"
  isActive :: bool
  lastLoginAt :: "int option"

record Otp =
  otp_id :: string
  otp_userId :: string
  otp_secret :: string
  otp_createdAt :: int
  otp_expiresAt :: int
  verified :: bool

record RefreshToken =
  rt_id :: string
  rt_userId :: string
  rt_token :: string
  rt_expiresAt :: "int option"
  revoked :: bool
  rt_createdAt :: int

record Permission =
  perm_id :: string
  perm_name :: string
  perm_description :: string
  perm_resource :: string
  perm_action :: string
  perm_createdAt :: int
  perm_updatedAt :: int

text \<open>Modelled from the spec: \<open>Otp.isExpired\<close>, "fails OtpExpired if now > expiresAt".\<close>

definition otp_isExpired :: "nat \<Rightarrow> Otp \<Rightarrow> bool" where
  "otp_isExpired now otp = (int now > otp_expiresAt otp)"

text \<open>Modelled from the spec: \<open>Otp.markAsVerified\<close>, "marks the Otp verified".\<close>

definition markAsVerified :: "Otp \<Rightarrow> Otp" where
  "markAsVerified otp = otp\<lparr>verified := True\<rparr>"

text \<open>
  Modelled from the spec: the constructor \<open>new RefreshToken(userId, token, days)\<close>, with
  "expiresAt = now + refreshExpirationDays". The identifier the constructor draws and the
  clock are inputs. The number of days comes from \<open>parseInt\<close> and may be \<open>NaN\<close>
  (\<open>None\<close>), which makes the expiry an invalid date.
\<close>

definition ms_per_day :: int where
  "ms_per_day = 24 * 60 * 60 * 1000"

definition new_RefreshToken :: "string \<Rightarrow> nat \<Rightarrow> string \<Rightarrow> string \<Rightarrow> int option \<Rightarrow> RefreshToken" where
  "new_RefreshToken rid now userId tokenValue days =
     \<lparr>rt_id = rid, rt_userId = userId, rt_token = tokenValue,
      rt_expiresAt = map_option (\<lambda>d. int now + d * ms_per_day) days,
      revoked = False, rt_createdAt = int now\<rparr>"

text \<open>
  Modelled from the spec: \<open>RefreshToken.isExpired\<close> ("past expiry"), \<open>isRevoked\<close> and
  \<open>revoke\<close> ("the revoked flag"). A comparison with an invalid date is false in
  JavaScript.
\<close>

definition rt_isExpired :: "nat \<Rightarrow> RefreshToken \<Rightarrow> bool" where
  "rt_isExpired now t = (case rt_expiresAt t of None \<Rightarrow> False | Some e \<Rightarrow> int now > e)"

definition isRevoked :: "RefreshToken \<Rightarrow> bool" where
  "isRevoked t = revoked t"

definition revoke :: "RefreshToken \<Rightarrow> RefreshToken" where
  "revoke t = t\<lparr>revoked := True\<rparr>"

text \<open>Modelled from the spec: \<open>User.disableOtp\<close>, "clears the secret and flag".\<close>

definition disableOtp :: "User \<Rightarrow> User" where
  "disableOtp u = u\<lparr>otpEnabled := False, otpSecret := None\<rparr>"

section \<open>Configuration\<close>

text \<open>
  The values \<open>ConfigService.get\<close> reads; \<open>None\<close> is an unset key, for which \<open>get\<close>
  returns the default given at the call.
\<close>

record config =
  OTP_SECRET :: "string option"
  OTP_EXPIRATION :: "nat option"
  OTP_STEP :: "nat option"
  OTP_DIGITS :: "nat option"
  JWT_REFRESH_EXPIRATION :: "string option"

definition config_get :: "'a option \<Rightarrow> 'a \<Rightarrow> 'a" where
  "config_get v dflt = (case v of None \<Rightarrow> dflt | Some x \<Rightarrow> x)"

record otp_config =
  cfg_secret :: "string option"
  cfg_expiration :: nat
  cfg_step :: nat
  cfg_digits :: nat

definition otpConfig :: "config \<Rightarrow> otp_config" where
  "otpConfig c =
     \<lparr>cfg_secret = OTP_SECRET c,
      cfg_expiration = config_get (OTP_EXPIRATION c) 5,
      cfg_step = config_get (OTP_STEP c) 30,
      cfg_digits = config_get (OTP_DIGITS c) 6\<rparr>"

text \<open>JavaScript's \<open>String.prototype.replace\<close> with a one-character pattern and an empty
  replacement: the first occurrence is removed.\<close>

fun replace_first :: "char \<Rightarrow> string \<Rightarrow> string" where
  "replace_first c [] = []"
| "replace_first c (x # xs) = (if x = c then xs else x # replace_first c xs)"

text \<open>
  JavaScript's \<open>parseInt(s, 10)\<close>: leading white space is skipped, one sign is read, then
  the longest run of decimal digits; with no digit the result is \<open>NaN\<close> (\<open>None\<close>).
\<close>

definition is_space :: "char \<Rightarrow> bool" where
  "is_space c = (c \<in> set [CHR '' '', CHR 0x09, CHR 0x0A, CHR 0x0B, CHR 0x0C, CHR 0x0D])"

definition is_digit :: "char \<Rightarrow> bool" where
  "is_digit c = (48 \<le> (of_char c :: nat) \<and> (of_char c :: nat) \<le> 57)"

definition digit_val :: "char \<Rightarrow> nat" where
  "digit_val c = of_char c - 48"

definition digits_val :: "string \<Rightarrow> nat" where
  "digits_val ds = foldl (\<lambda>acc c. 10 * acc + digit_val c) 0 ds"

definition parse_digits :: "string \<Rightarrow> nat option" where
  "parse_digits s =
     (let ds = takeWhile is_digit s in if ds = [] then None else Some (digits_val ds))"

definition parseInt :: "string \<Rightarrow> int option" where
  "parseInt s =
     (case dropWhile is_space s of
        [] \<Rightarrow> None
      | c # cs \<Rightarrow>
          if c = CHR ''-'' then map_option (\<lambda>n. - int n) (parse_digits cs)
          else if c = CHR ''+'' then map_option int (parse_digits cs)
          else map_option int (parse_digits (c # cs)))"

definition tokenConfig_refreshExpiration :: "config \<Rightarrow> int option" where
  "tokenConfig_refreshExpiration c =
     parseInt (replace_first CHR ''d'' (config_get (JWT_REFRESH_EXPIRATION c) ''7d''))"

section \<open>The stores\<close>

text \<open>
  Modelled from the spec: the repository implementations behind \<open>IUserRepository\<close>,
  \<open>IOtpRepository\<close> and \<open>IRefreshTokenRepository\<close> are not part of the source at hand.
  Each store is the list of its records, in insertion order, with the read/write
  contract of the spec's section on external interfaces:
  \<open>findById\<close>, \<open>findByUserId\<close> and \<open>findByToken\<close> return the record or nothing;
  \<open>update\<close> replaces the record with the identifier of its argument;
  \<open>deleteByUserId\<close> removes every record of the user;
  \<open>create\<close> inserts one record. The identifier is the identity of a record and the token
  value is globally unique, so the refresh-token store refuses a record whose identifier
  or token value is already stored; a store failure reaches the caller unchanged.
  The Otp store keeps every record created; \<open>findByUserId\<close> returns the latest one of
  the user (last write wins).
\<close>

record sys =
  users :: "User list"
  otps :: "Otp list"
  refreshTokens :: "RefreshToken list"

definition userRepository_findById :: "User list \<Rightarrow> string \<Rightarrow> User option" where
  "userRepository_findById us i = find (\<lambda>u. user_id u = i) us"

definition userRepository_update :: "User list \<Rightarrow> User \<Rightarrow> User list" where
  "userRepository_update us u = map (\<lambda>x. if user_id x = user_id u then u else x) us"

definition otpRepository_findByUserId :: "Otp list \<Rightarrow> string \<Rightarrow> Otp option" where
  "otpRepository_findByUserId os u = find (\<lambda>otp. otp_userId otp = u) (rev os)"

definition otpRepository_update :: "Otp list \<Rightarrow> Otp \<Rightarrow> Otp list" where
  "otpRepository_update os otp = map (\<lambda>x. if otp_id x = otp_id otp then otp else x) os"

definition refreshTokenRepository_findByToken :: "RefreshToken list \<Rightarrow> string \<Rightarrow> RefreshToken option" where
  "refreshTokenRepository_findByToken ts v = find (\<lambda>t. rt_token t = v) ts"

definition refreshTokenRepository_deleteByUserId :: "RefreshToken list \<Rightarrow> string \<Rightarrow> RefreshToken list" where
  "refreshTokenRepository_deleteByUserId ts u = filter (\<lambda>t. rt_userId t \<noteq> u) ts"

definition refreshTokenRepository_create :: "RefreshToken list \<Rightarrow> RefreshToken \<Rightarrow> RefreshToken list result" where
  "refreshTokenRepository_create ts t =
     (if rt_id t \<in> set (map rt_id ts) \<or> rt_token t \<in> set (map rt_token ts)
      then Inl (StoreFailure ''Unique constraint failed'')
      else Inr (ts @ [t]))"

definition refreshTokenRepository_update :: "RefreshToken list \<Rightarrow> RefreshToken \<Rightarrow> RefreshToken list" where
  "refreshTokenRepository_update ts t = map (\<lambda>x. if rt_id x = rt_id t then t else x) ts"

text \<open>At most one stored refresh token per user.\<close>

definition tokens_of :: "string \<Rightarrow> RefreshToken list \<Rightarrow> RefreshToken list" where
  "tokens_of u ts = filter (\<lambda>t. rt_userId t = u) ts"

definition single_session :: "RefreshToken list \<Rightarrow> bool" where
  "single_session ts = distinct (map rt_userId ts)"

section \<open>The refresh-token ledger of AuthService\<close>

definition createRefreshToken :: "config \<Rightarrow> nat \<Rightarrow> string \<Rightarrow> sys \<Rightarrow> string \<Rightarrow> string \<Rightarrow> RefreshToken result \<times> sys" where
  "createRefreshToken c now rid s userId tokenValue =
     (let s1 = s\<lparr>refreshTokens := refreshTokenRepository_deleteByUserId (refreshTokens s) userId\<rparr>;
          refreshToken = new_RefreshToken rid now userId tokenValue (tokenConfig_refreshExpiration c)
      in case refreshTokenRepository_create (refreshTokens s1) refreshToken of
           Inl e \<Rightarrow> (Inl e, s1)
         | Inr ts \<Rightarrow> (Inr refreshToken, s1\<lparr>refreshTokens := ts\<rparr>))"

definition validateRefreshToken :: "nat \<Rightarrow> sys \<Rightarrow> string \<Rightarrow> RefreshToken result" where
  "validateRefreshToken now s tokenValue =
     (case refreshTokenRepository_findByToken (refreshTokens s) tokenValue of
        None \<Rightarrow> Inl (AuthenticationException ''Invalid refresh token'')
      | Some refreshToken \<Rightarrow>
          if rt_isExpired now refreshToken
          then Inl (AuthenticationException ''Refresh token has expired'')
          else if isRevoked refreshToken
          then Inl (AuthenticationException ''Refresh token has been revoked'')
          else Inr refreshToken)"

definition revokeRefreshToken :: "sys \<Rightarrow> string \<Rightarrow> unit result \<times> sys" where
  "revokeRefreshToken s tokenValue =
     (case refreshTokenRepository_findByToken (refreshTokens s) tokenValue of
        None \<Rightarrow> (Inl (AuthenticationException ''Invalid refresh token''), s)
      | Some refreshToken \<Rightarrow>
          if isRevoked refreshToken then (Inr (), s)
          else (Inr (),
                s\<lparr>refreshTokens :=
                    refreshTokenRepository_update (refreshTokens s) (revoke refreshToken)\<rparr>))"

section \<open>One-time codes: the speakeasy library\<close>

text \<open>
  \<open>speakeasy.totp.verify\<close> belongs to a library outside the repository. Its code
  generator \<open>hotp\<close> (secret, counter, digits to code) is a parameter of the model;
  \<open>rfc4226_hotp\<close> below is the standard construction it implements. The verification
  is modelled from the library's documented behaviour: the counter is
  \<open>floor (time / step / 1000)\<close> with \<open>step || 30\<close>; the \<open>window\<close> option defaults to 0;
  \<open>totp.verifyDelta\<close> moves the counter back by the window and doubles the window;
  \<open>hotp.verifyDelta\<close> rejects a token whose length is not \<open>digits || 6\<close> or which
  \<open>parseInt\<close> does not read, and compares the token, as an integer, with the code of
  each counter from \<open>counter\<close> to \<open>counter + window\<close>.
\<close>

type_synonym hotp_fun = "string \<Rightarrow> int \<Rightarrow> nat \<Rightarrow> string"

record verify_options =
  vo_secret :: string
  vo_token :: string
  vo_step :: nat
  vo_digits :: nat
  vo_window :: "nat option"

definition totp_counter :: "nat \<Rightarrow> nat \<Rightarrow> int" where
  "totp_counter step now = int (now div (if step = 0 then 30 else step) div 1000)"

definition hotp_verifyDelta :: "hotp_fun \<Rightarrow> string \<Rightarrow> string \<Rightarrow> nat \<Rightarrow> int \<Rightarrow> nat \<Rightarrow> int option" where
  "hotp_verifyDelta hotp secret tokenValue digits counter window =
     (if length tokenValue \<noteq> (if digits = 0 then 6 else digits) then None
      else case parseInt tokenValue of
             None \<Rightarrow> None
           | Some tk \<Rightarrow>
               map_option (\<lambda>i. i - counter)
                 (find (\<lambda>i. parseInt (hotp secret i digits) = Some tk)
                    [counter..counter + int window]))"

definition totp_verifyDelta :: "hotp_fun \<Rightarrow> verify_options \<Rightarrow> nat \<Rightarrow> int option" where
  "totp_verifyDelta hotp opts now =
     (let window = (case vo_window opts of None \<Rightarrow> 0 | Some w \<Rightarrow> w);
          counter = totp_counter (vo_step opts) now - int window
      in map_option (\<lambda>delta. delta - int window)
           (hotp_verifyDelta hotp (vo_secret opts) (vo_token opts) (vo_digits opts)
              counter (window + window)))"

definition totp_verify :: "hotp_fun \<Rightarrow> verify_options \<Rightarrow> nat \<Rightarrow> bool" where
  "totp_verify hotp opts now = (totp_verifyDelta hotp opts now \<noteq> None)"

subsection \<open>The standard code generator\<close>

text \<open>
  HOTP of RFC 4226 over HMAC-SHA-1 (RFC 2104, RFC 3174), with the secret in base32
  (RFC 4648) as the source passes it (\<open>encoding: 'base32'\<close>), and the code left-padded
  with zeros and cut to its last \<open>digits || 6\<close> characters as the library does. Bytes
  and 32-bit words are natural numbers, with the wrap-around written out.
\<close>

definition add32 :: "nat \<Rightarrow> nat \<Rightarrow> nat" where
  "add32 x y = (if x + y < 4294967296 then x + y else x + y - 4294967296)"

definition not32 :: "nat \<Rightarrow> nat" where
  "not32 x = 4294967295 - x"

definition rotl :: "nat \<Rightarrow> nat \<Rightarrow> nat" where
  "rotl n x = take_bit 32 (push_bit n x) + drop_bit (32 - n) x"

fun words_of :: "nat list \<Rightarrow> nat list" where
  "words_of (a # b # c # d # bs) = (a * 16777216 + b * 65536 + c * 256 + d) # words_of bs"
| "words_of _ = []"

definition bytes_of_word :: "nat \<Rightarrow> nat list" where
  "bytes_of_word w = [w div 16777216, w div 65536 mod 256, w div 256 mod 256, w mod 256]"

definition be64 :: "nat \<Rightarrow> nat list" where
  "be64 n = bytes_of_word (n div 4294967296 mod 4294967296) @ bytes_of_word (n mod 4294967296)"

definition sha1_pad :: "nat list \<Rightarrow> nat list" where
  "sha1_pad m = m @ [128] @ replicate ((119 - length m mod 64) mod 64) 0 @ be64 (8 * length m)"

fun expand :: "nat \<Rightarrow> nat list \<Rightarrow> nat list" where
  "expand 0 ws = ws"
| "expand (Suc n) ws =
     expand n (ws @ [rotl 1 (ws ! (length ws - 3) XOR ws ! (length ws - 8)
                              XOR ws ! (length ws - 14) XOR ws ! (length ws - 16))])"

definition schedule :: "nat list \<Rightarrow> nat list" where
  "schedule ws16 = expand 64 ws16"

definition sha1_f :: "nat \<Rightarrow> nat \<Rightarrow> nat \<Rightarrow> nat \<Rightarrow> nat" where
  "sha1_f t b c d =
     (if t < 20 then (b AND c) OR (not32 b AND d)
      else if t < 40 then b XOR c XOR d
      else if t < 60 then (b AND c) OR (b AND d) OR (c AND d)
      else b XOR c XOR d)"

definition sha1_k :: "nat \<Rightarrow> nat" where
  "sha1_k t = (if t < 20 then 0x5A827999 else if t < 40 then 0x6ED9EBA1
               else if t < 60 then 0x8F1BBCDC else 0xCA62C1D6)"

type_synonym sha1_state = "nat \<times> nat \<times> nat \<times> nat \<times> nat"

fun sha1_rounds :: "nat \<Rightarrow> nat list \<Rightarrow> sha1_state \<Rightarrow> sha1_state" where
  "sha1_rounds t [] h = h"
| "sha1_rounds t (w # ws) (a, b, c, d, e) =
     sha1_rounds (t + 1) ws
       (add32 (add32 (add32 (add32 (rotl 5 a) (sha1_f t b c d)) e) (sha1_k t)) w,
        a, rotl 30 b, c, d)"

definition compress :: "sha1_state \<Rightarrow> nat list \<Rightarrow> sha1_state" where
  "compress h blk =
     (case h of (h0, h1, h2, h3, h4) \<Rightarrow>
      case sha1_rounds 0 (schedule (words_of blk)) h of (a, b, c, d, e) \<Rightarrow>
        (add32 h0 a, add32 h1 b, add32 h2 c, add32 h3 d, add32 h4 e))"

fun blocks :: "sha1_state \<Rightarrow> nat list \<Rightarrow> sha1_state" where
  "blocks h [] = h"
| "blocks h (b # bs) = blocks (compress h (take 64 (b # bs))) (drop 64 (b # bs))"

definition sha1_init :: sha1_state where
  "sha1_init = (0x67452301, 0xEFCDAB89, 0x98BADCFE, 0x10325476, 0xC3D2E1F0)"

definition sha1 :: "nat list \<Rightarrow> nat list" where
  "sha1 m =
     (case blocks sha1_init (sha1_pad m) of
        (a, b, c, d, e) \<Rightarrow> concat (map bytes_of_word [a, b, c, d, e]))"

definition hmac_sha1 :: "nat list \<Rightarrow> nat list \<Rightarrow> nat list" where
  "hmac_sha1 key msg =
     (let k = (if length key > 64 then sha1 key else key);
          kp = k @ replicate (64 - length k) 0
      in sha1 (map (\<lambda>b. b XOR 0x5c) kp @ sha1 (map (\<lambda>b. b XOR 0x36) kp @ msg)))"

definition b32_value :: "char \<Rightarrow> nat option" where
  "b32_value ch =
     (let n = (of_char ch :: nat) in
      if 65 \<le> n \<and> n \<le> 90 then Some (n - 65)
      else if 97 \<le> n \<and> n \<le> 122 then Some (n - 97)
      else if 50 \<le> n \<and> n \<le> 55 then Some (n - 24)
      else None)"

definition bits5 :: "nat \<Rightarrow> nat list" where
  "bits5 n = [n div 16 mod 2, n div 8 mod 2, n div 4 mod 2, n div 2 mod 2, n mod 2]"

fun bytes_of_bits :: "nat list \<Rightarrow> nat list" where
  "bytes_of_bits (a # b # c # d # e # f # g # h # r) =
     (128 * a + 64 * b + 32 * c + 16 * d + 8 * e + 4 * f + 2 * g + h) # bytes_of_bits r"
| "bytes_of_bits _ = []"

definition base32_decode :: "string \<Rightarrow> nat list" where
  "base32_decode s = bytes_of_bits (concat (map bits5 (List.map_filter b32_value s)))"

definition digit_char :: "nat \<Rightarrow> char" where
  "digit_char d = ''0123456789'' ! d"

fun decimal :: "nat \<Rightarrow> string" where
  "decimal n = (if n < 10 then [digit_char n] else decimal (n div 10) @ [digit_char (n mod 10)])"

declare decimal.simps [simp del]

definition dynamic_truncation :: "nat list \<Rightarrow> nat" where
  "dynamic_truncation dg =
     (let off = dg ! 19 mod 16
      in (dg ! off mod 128) * 16777216 + dg ! (off + 1) * 65536 + dg ! (off + 2) * 256
         + dg ! (off + 3))"

definition rfc4226_hotp :: hotp_fun where
  "rfc4226_hotp secret counter digits =
     (let d = (if digits = 0 then 6 else digits);
          code = dynamic_truncation (hmac_sha1 (base32_decode secret) (be64 (nat counter)));
          padded = replicate d CHR ''0'' @ decimal code
      in drop (length padded - d) padded)"

section \<open>One-time passwords and two-factor enrollment of AuthService\<close>

definition verifyOtp :: "hotp_fun \<Rightarrow> config \<Rightarrow> nat \<Rightarrow> sys \<Rightarrow> string \<Rightarrow> string \<Rightarrow> bool result \<times> sys" where
  "verifyOtp hotp c now s userId tokenValue =
     (case userRepository_findById (users s) userId of
        None \<Rightarrow> (Inl (EntityNotFoundException ''User'' (Some userId)), s)
      | Some user \<Rightarrow>
          (case otpRepository_findByUserId (otps s) userId of
             None \<Rightarrow> (Inl (EntityNotFoundException ''OTP'' None), s)
           | Some otp \<Rightarrow>
               if otp_isExpired now otp then (Inl OtpExpiredException, s)
               else if totp_verify hotp
                         \<lparr>vo_secret = otp_secret otp, vo_token = tokenValue,
                          vo_step = cfg_step (otpConfig c), vo_digits = cfg_digits (otpConfig c),
                          vo_window = None\<rparr> now
               then (Inr True, s\<lparr>otps := otpRepository_update (otps s) (markAsVerified otp)\<rparr>)
               else (Inl OtpInvalidException, s)))"

definition verifyTwoFactorToken :: "hotp_fun \<Rightarrow> config \<Rightarrow> nat \<Rightarrow> sys \<Rightarrow> string \<Rightarrow> string \<Rightarrow> bool result" where
  "verifyTwoFactorToken hotp c now s userId tokenValue =
     (case userRepository_findById (users s) userId of
        None \<Rightarrow> Inl (EntityNotFoundException ''User'' (Some userId))
      | Some user \<Rightarrow>
          (case otpSecret user of
             None \<Rightarrow> Inl (AuthenticationException
                            ''Two-factor authentication is not enabled for this user'')
           | Some sec \<Rightarrow>
               if \<not> otpEnabled user \<or> sec = []
               then Inl (AuthenticationException
                           ''Two-factor authentication is not enabled for this user'')
               else if \<not> totp_verify hotp
                             \<lparr>vo_secret = sec, vo_token = tokenValue,
                              vo_step = cfg_step (otpConfig c), vo_digits = cfg_digits (otpConfig c),
                              vo_window = None\<rparr> now
               then Inl OtpInvalidException
               else Inr True))"

definition disableTwoFactorAuth :: "sys \<Rightarrow> string \<Rightarrow> User result \<times> sys" where
  "disableTwoFactorAuth s userId =
     (case userRepository_findById (users s) userId of
        None \<Rightarrow> (Inl (EntityNotFoundException ''User'' (Some userId)), s)
      | Some user \<Rightarrow>
          (Inr (disableOtp user),
           s\<lparr>users := userRepository_update (users s) (disableOtp user)\<rparr>))"

section \<open>JwtStrategy\<close>

text \<open>The verified token payload: its subject, and whatever other claims it carries.\<close>

record payload =
  sub :: string

definition validate :: "User list \<Rightarrow> 'a payload_scheme \<Rightarrow> 'a payload_scheme result" where
  "validate us p =
     (case userRepository_findById us (sub p) of
        None \<Rightarrow> Inl (UnauthorizedException ''User no longer active or not found'')
      | Some user \<Rightarrow>
          if \<not> isActive user
          then Inl (UnauthorizedException ''User no longer active or not found'')
          else Inr p)"

section \<open>PermissionRepository\<close>

text \<open>
  The Prisma client belongs to a library outside the repository. Its permission table
  is the list of its rows; \<open>findUnique\<close> returns the row or null, \<open>findMany\<close> the
  matching rows, and \<open>delete\<close> removes the row of the identifier or throws when there
  is none (\<open>P2025\<close>).
\<close>

record permission_row =
  row_id :: string
  row_name :: string
  row_description :: string
  row_resource :: string
  row_action :: string
  row_createdAt :: int
  row_updatedAt :: int

definition prisma_findUnique :: "(permission_row \<Rightarrow> bool) \<Rightarrow> permission_row list \<Rightarrow> permission_row option" where
  "prisma_findUnique wh tbl = find wh tbl"

definition prisma_findMany :: "(permission_row \<Rightarrow> bool) \<Rightarrow> permission_row list \<Rightarrow> permission_row list" where
  "prisma_findMany wh tbl = filter wh tbl"

definition prisma_delete :: "string \<Rightarrow> permission_row list \<Rightarrow> permission_row list result" where
  "prisma_delete i tbl =
     (if i \<in> set (map row_id tbl) then Inr (filter (\<lambda>r. row_id r \<noteq> i) tbl)
      else Inl (StoreFailure ''P2025''))"

text \<open>Modelled from the spec: the constructor of \<open>Permission\<close> stores its four arguments.\<close>

definition mapToModel :: "permission_row \<Rightarrow> Permission" where
  "mapToModel r =
     \<lparr>perm_id = row_id r, perm_name = row_name r, perm_description = row_description r,
      perm_resource = row_resource r, perm_action = row_action r,
      perm_createdAt = row_createdAt r, perm_updatedAt = row_updatedAt r\<rparr>"

definition findById :: "permission_row list \<Rightarrow> string \<Rightarrow> Permission option" where
  "findById tbl i =
     (case prisma_findUnique (\<lambda>r. row_id r = i) tbl of
        None \<Rightarrow> None
      | Some permissionRecord \<Rightarrow> Some (mapToModel permissionRecord))"

definition findByName :: "permission_row list \<Rightarrow> string \<Rightarrow> Permission option" where
  "findByName tbl n =
     (case prisma_findUnique (\<lambda>r. row_name r = n) tbl of
        None \<Rightarrow> None
      | Some permissionRecord \<Rightarrow> Some (mapToModel permissionRecord))"

definition findAll :: "permission_row list \<Rightarrow> Permission list" where
  "findAll tbl = map mapToModel (prisma_findMany (\<lambda>r. True) tbl)"

definition findByResource :: "permission_row list \<Rightarrow> string \<Rightarrow> Permission list" where
  "findByResource tbl res = map mapToModel (prisma_findMany (\<lambda>r. row_resource r = res) tbl)"

definition delete :: "permission_row list \<Rightarrow> string \<Rightarrow> bool \<times> permission_row list" where
  "delete tbl i =
     (case prisma_delete i tbl of
        Inr tbl' \<Rightarrow> (True, tbl')
      | Inl e \<Rightarrow> (False, tbl))"

section \<open>Example states\<close>

text \<open>Concrete records and stores at which the theorems below are instantiated.\<close>

definition tok_live :: RefreshToken where
  "tok_live = \<lparr>rt_id = ''r1'', rt_userId = ''alice'', rt_token = ''tA'',
     rt_expiresAt = Some 1000, revoked = False, rt_createdAt = 0\<rparr>"

definition tok_expired :: RefreshToken where
  "tok_expired = \<lparr>rt_id = ''r2'', rt_userId = ''bob'', rt_token = ''tB'',
     rt_expiresAt = Some 10, revoked = True, rt_createdAt = 0\<rparr>"

definition tok_revoked :: RefreshToken where
  "tok_revoked = \<lparr>rt_id = ''r3'', rt_userId = ''carol'', rt_token = ''tC'',
     rt_expiresAt = Some 1000, revoked = True, rt_createdAt = 0\<rparr>"

definition user_alice :: User where
  "user_alice = \<lparr>user_id = ''alice'', email = ''alice@example.org'', otpEnabled = True,
     otpSecret = Some ''GEZDGNBVGY3TQOJQGEZDGNBVGY3TQOJQ'', isActive = True, lastLoginAt = None\<rparr>"

definition user_bob :: User where
  "user_bob = \<lparr>user_id = ''bob'', email = ''bob@example.org'', otpEnabled = False,
     otpSecret = None, isActive = False, lastLoginAt = None\<rparr>"

definition ledger_sys :: sys where
  "ledger_sys = \<lparr>users = [user_alice, user_bob], otps = [],
     refreshTokens = [tok_live, tok_expired, tok_revoked]\<rparr>"

definition default_config :: config where
  "default_config = \<lparr>OTP_SECRET = None, OTP_EXPIRATION = None, OTP_STEP = None,
     OTP_DIGITS = None, JWT_REFRESH_EXPIRATION = None\<rparr>"

definition tok_first :: RefreshToken where
  "tok_first = \<lparr>rt_id = ''r8'', rt_userId = ''alice'', rt_token = ''t1'',
     rt_expiresAt = Some 604800000, revoked = False, rt_createdAt = 0\<rparr>"

definition tok_second :: RefreshToken where
  "tok_second = \<lparr>rt_id = ''r9'', rt_userId = ''alice'', rt_token = ''t2'',
     rt_expiresAt = Some 604800005, revoked = False, rt_createdAt = 5\<rparr>"

definition sys_first :: sys where
  "sys_first = \<lparr>users = [user_alice, user_bob], otps = [],
     refreshTokens = [tok_expired, tok_revoked, tok_first]\<rparr>"

definition sys_second :: sys where
  "sys_second = \<lparr>users = [user_alice, user_bob], otps = [],
     refreshTokens = [tok_expired, tok_revoked, tok_second]\<rparr>"

definition tok_zoe :: RefreshToken where
  "tok_zoe = \<lparr>rt_id = ''r7'', rt_userId = ''zoe'', rt_token = ''tZ'',
     rt_expiresAt = Some 604800000, revoked = False, rt_createdAt = 0\<rparr>"

section \<open>Properties of the refresh-token ledger\<close>

lemma find_SomeD: "find P xs = Some x \<Longrightarrow> P x \<and> x \<in> set xs"
  by (induction xs) (auto split: if_splits)

lemma findByToken_update:
  assumes "refreshTokenRepository_findByToken ts v = Some tok"
    and "rt_token tok' = v" and "rt_id tok' = rt_id tok"
  shows "refreshTokenRepository_findByToken (refreshTokenRepository_update ts tok') v = Some tok'"
  using assms unfolding refreshTokenRepository_findByToken_def refreshTokenRepository_update_def
  by (induction ts) (auto split: if_splits)

text \<open>
  C5. \<open>validateRefreshToken\<close> applies three checks in this order, for every store
  state, token value and time: when no stored token has the value it fails with
  AuthenticationException (invalid); otherwise, when the token found is past its expiry,
  it fails with AuthenticationException (expired), whatever the revoked flag;
  otherwise, when the revoked flag is set, it fails with AuthenticationException
  (revoked); otherwise it returns the token found.
\<close>

theorem validateRefreshToken_order:
  "(refreshTokenRepository_findByToken (refreshTokens s) v = None \<longrightarrow>
      validateRefreshToken now s v = Inl (AuthenticationException ''Invalid refresh token'')) \<and>
   (\<forall>t. refreshTokenRepository_findByToken (refreshTokens s) v = Some t \<longrightarrow>
      (rt_isExpired now t \<longrightarrow>
         validateRefreshToken now s v = Inl (AuthenticationException ''Refresh token has expired'')) \<and>
      (\<not> rt_isExpired now t \<and> revoked t \<longrightarrow>
         validateRefreshToken now s v = Inl (AuthenticationException ''Refresh token has been revoked'')) \<and>
      (\<not> rt_isExpired now t \<and> \<not> revoked t \<longrightarrow>
         validateRefreshToken now s v = Inr t))"
  by (simp add: validateRefreshToken_def isRevoked_def)

theorem validateRefreshToken_order_witness:
  "validateRefreshToken 500 ledger_sys ''none'' = Inl (AuthenticationException ''Invalid refresh token'') \<and>
   validateRefreshToken 500 ledger_sys ''tB'' = Inl (AuthenticationException ''Refresh token has expired'') \<and>
   validateRefreshToken 500 ledger_sys ''tC'' = Inl (AuthenticationException ''Refresh token has been revoked'') \<and>
   validateRefreshToken 500 ledger_sys ''tA'' = Inr tok_live"
  using validateRefreshToken_order [where s = ledger_sys and v = "''none''" and now = 500]
    validateRefreshToken_order [where s = ledger_sys and v = "''tB''" and now = 500]
    validateRefreshToken_order [where s = ledger_sys and v = "''tC''" and now = 500]
    validateRefreshToken_order [where s = ledger_sys and v = "''tA''" and now = 500]
  by (simp add: refreshTokenRepository_findByToken_def ledger_sys_def tok_live_def tok_expired_def
      tok_revoked_def rt_isExpired_def)

text \<open>
  C6. \<open>revokeRefreshToken\<close> is idempotent. When no stored token has the value it fails
  with AuthenticationException (invalid) and writes nothing. On a token that is not
  revoked the first call succeeds and stores the token with the flag set, the other
  stores unchanged; a second call then succeeds and leaves the state as it is. A call
  on a revoked token succeeds and writes nothing.
\<close>

theorem revokeRefreshToken_idempotent:
  "(refreshTokenRepository_findByToken (refreshTokens s) v = None \<longrightarrow>
      revokeRefreshToken s v = (Inl (AuthenticationException ''Invalid refresh token''), s)) \<and>
   (\<forall>t. refreshTokenRepository_findByToken (refreshTokens s) v = Some t \<and> \<not> revoked t \<longrightarrow>
      fst (revokeRefreshToken s v) = Inr () \<and>
      refreshTokenRepository_findByToken (refreshTokens (snd (revokeRefreshToken s v))) v
        = Some (t\<lparr>revoked := True\<rparr>) \<and>
      users (snd (revokeRefreshToken s v)) = users s \<and>
      otps (snd (revokeRefreshToken s v)) = otps s \<and>
      revokeRefreshToken (snd (revokeRefreshToken s v)) v = (Inr (), snd (revokeRefreshToken s v))) \<and>
   (\<forall>t. refreshTokenRepository_findByToken (refreshTokens s) v = Some t \<and> revoked t \<longrightarrow>
      revokeRefreshToken s v = (Inr (), s))"
proof (intro conjI allI impI)
  assume "refreshTokenRepository_findByToken (refreshTokens s) v = None"
  then show "revokeRefreshToken s v = (Inl (AuthenticationException ''Invalid refresh token''), s)"
    by (simp add: revokeRefreshToken_def)
next
  fix t
  assume h: "refreshTokenRepository_findByToken (refreshTokens s) v = Some t \<and> \<not> revoked t"
  then have f: "refreshTokenRepository_findByToken (refreshTokens s) v = Some t"
    by simp
  then have tv: "rt_token t = v"
    using find_SomeD [of "\<lambda>t. rt_token t = v" "refreshTokens s" t]
    by (simp add: refreshTokenRepository_findByToken_def)
  have eq: "revokeRefreshToken s v =
      (Inr (), s\<lparr>refreshTokens := refreshTokenRepository_update (refreshTokens s) (revoke t)\<rparr>)"
    using h by (simp add: revokeRefreshToken_def isRevoked_def)
  have found: "refreshTokenRepository_findByToken
      (refreshTokenRepository_update (refreshTokens s) (revoke t)) v = Some (revoke t)"
    using findByToken_update [OF f, of "revoke t"] tv by (simp add: revoke_def)
  show "fst (revokeRefreshToken s v) = Inr ()" by (simp add: eq)
  show "refreshTokenRepository_findByToken (refreshTokens (snd (revokeRefreshToken s v))) v
        = Some (t\<lparr>revoked := True\<rparr>)"
    using found by (simp add: eq revoke_def)
  show "users (snd (revokeRefreshToken s v)) = users s" by (simp add: eq)
  show "otps (snd (revokeRefreshToken s v)) = otps s" by (simp add: eq)
  have again: "revokeRefreshToken
      (s\<lparr>refreshTokens := refreshTokenRepository_update (refreshTokens s) (revoke t)\<rparr>) v
      = (Inr (), s\<lparr>refreshTokens := refreshTokenRepository_update (refreshTokens s) (revoke t)\<rparr>)"
    using found by (simp add: revokeRefreshToken_def isRevoked_def revoke_def)
  show "revokeRefreshToken (snd (revokeRefreshToken s v)) v = (Inr (), snd (revokeRefreshToken s v))"
    unfolding eq snd_conv by (rule again)
next
  fix t
  assume "refreshTokenRepository_findByToken (refreshTokens s) v = Some t \<and> revoked t"
  then show "revokeRefreshToken s v = (Inr (), s)"
    by (simp add: revokeRefreshToken_def isRevoked_def)
qed

theorem revokeRefreshToken_idempotent_witness:
  "revokeRefreshToken ledger_sys ''none'' = (Inl (AuthenticationException ''Invalid refresh token''), ledger_sys) \<and>
   fst (revokeRefreshToken ledger_sys ''tA'') = Inr () \<and>
   refreshTokenRepository_findByToken (refreshTokens (snd (revokeRefreshToken ledger_sys ''tA''))) ''tA''
     = Some (tok_live\<lparr>revoked := True\<rparr>) \<and>
   revokeRefreshToken (snd (revokeRefreshToken ledger_sys ''tA'')) ''tA''
     = (Inr (), snd (revokeRefreshToken ledger_sys ''tA'')) \<and>
   revokeRefreshToken ledger_sys ''tC'' = (Inr (), ledger_sys)"
  using revokeRefreshToken_idempotent [where s = ledger_sys and v = "''none''"]
    revokeRefreshToken_idempotent [where s = ledger_sys and v = "''tA''"]
    revokeRefreshToken_idempotent [where s = ledger_sys and v = "''tC''"]
  by (simp add: refreshTokenRepository_findByToken_def ledger_sys_def tok_live_def tok_expired_def
      tok_revoked_def)

lemma tokens_after_create:
  assumes "createRefreshToken c now rid s u v = (r, s')"
  shows "(r = Inr (new_RefreshToken rid now u v (tokenConfig_refreshExpiration c)) \<and>
          refreshTokens s' = refreshTokenRepository_deleteByUserId (refreshTokens s) u
                               @ [new_RefreshToken rid now u v (tokenConfig_refreshExpiration c)] \<and>
          rid \<notin> set (map rt_id (refreshTokenRepository_deleteByUserId (refreshTokens s) u)) \<and>
          v \<notin> set (map rt_token (refreshTokenRepository_deleteByUserId (refreshTokens s) u)))
       \<or> (r = Inl (StoreFailure ''Unique constraint failed'') \<and>
          refreshTokens s' = refreshTokenRepository_deleteByUserId (refreshTokens s) u \<and>
          (rid \<in> set (map rt_id (refreshTokenRepository_deleteByUserId (refreshTokens s) u)) \<or>
           v \<in> set (map rt_token (refreshTokenRepository_deleteByUserId (refreshTokens s) u))))"
  using assms
  by (auto simp: createRefreshToken_def Let_def refreshTokenRepository_create_def new_RefreshToken_def
      split: if_splits)

lemma create_other_stores:
  assumes "createRefreshToken c now rid s u v = (r, s')"
  shows "users s' = users s \<and> otps s' = otps s"
  using assms
  by (auto simp: createRefreshToken_def Let_def split: sum.splits)

lemma tokens_of_delete_same: "tokens_of u (refreshTokenRepository_deleteByUserId ts u) = []"
  by (induction ts) (auto simp: tokens_of_def refreshTokenRepository_deleteByUserId_def)

lemma tokens_of_delete_other:
  "w \<noteq> u \<Longrightarrow> tokens_of w (refreshTokenRepository_deleteByUserId ts u) = tokens_of w ts"
  by (induction ts) (auto simp: tokens_of_def refreshTokenRepository_deleteByUserId_def)

lemma single_session_delete:
  "single_session ts \<Longrightarrow> single_session (refreshTokenRepository_deleteByUserId ts u)"
  by (simp add: single_session_def refreshTokenRepository_deleteByUserId_def distinct_map_filter)

lemma user_not_in_delete:
  "u \<notin> set (map rt_userId (refreshTokenRepository_deleteByUserId ts u))"
  by (auto simp: refreshTokenRepository_deleteByUserId_def)

lemma find_append_last:
  "find P (xs @ ys) = (case find P xs of None \<Rightarrow> find P ys | Some x \<Rightarrow> Some x)"
  by (induction xs) auto

lemma default_refreshExpiration: "tokenConfig_refreshExpiration default_config = Some 7"
  by (simp add: tokenConfig_refreshExpiration_def default_config_def config_get_def parseInt_def
      parse_digits_def is_space_def is_digit_def digits_val_def digit_val_def)

lemma create_first:
  "createRefreshToken default_config 0 ''r8'' ledger_sys ''alice'' ''t1'' = (Inr tok_first, sys_first)"
  by (simp add: createRefreshToken_def Let_def default_refreshExpiration new_RefreshToken_def ms_per_day_def
      refreshTokenRepository_deleteByUserId_def refreshTokenRepository_create_def ledger_sys_def
      sys_first_def tok_first_def tok_live_def tok_expired_def tok_revoked_def)

lemma create_second:
  "createRefreshToken default_config 5 ''r9'' sys_first ''alice'' ''t2'' = (Inr tok_second, sys_second)"
  by (simp add: createRefreshToken_def Let_def default_refreshExpiration new_RefreshToken_def ms_per_day_def
      refreshTokenRepository_deleteByUserId_def refreshTokenRepository_create_def
      sys_first_def sys_second_def tok_first_def tok_second_def tok_expired_def tok_revoked_def)

lemma create_zoe:
  "createRefreshToken default_config 0 ''r7'' ledger_sys ''zoe'' ''tZ''
     = (Inr tok_zoe, ledger_sys\<lparr>refreshTokens := [tok_live, tok_expired, tok_revoked, tok_zoe]\<rparr>)"
  by (simp add: createRefreshToken_def Let_def default_refreshExpiration new_RefreshToken_def ms_per_day_def
      refreshTokenRepository_deleteByUserId_def refreshTokenRepository_create_def ledger_sys_def
      tok_zoe_def tok_live_def tok_expired_def tok_revoked_def)

text \<open>
  C1. \<open>createRefreshToken\<close> first deletes every refresh token of the user and then
  inserts one new token for that user. Whatever the store held before, the store holds
  afterwards exactly the new token for that user, or none when the store refused the
  insertion, so at most one. The tokens of every other user are as they were, so a store
  with at most one token per user stays one. The insertion is accepted exactly when the
  identifier and the token value are not in use by another user's token: whether the
  user exists plays no part, and the user store is neither read nor written.
\<close>

theorem createRefreshToken_single_session:
  assumes "createRefreshToken c now rid s u v = (r, s')"
  shows "tokens_of u (refreshTokens s') = (case r of Inr tok \<Rightarrow> [tok] | Inl e \<Rightarrow> []) \<and>
         length (tokens_of u (refreshTokens s')) \<le> 1 \<and>
         (\<forall>w. w \<noteq> u \<longrightarrow> tokens_of w (refreshTokens s') = tokens_of w (refreshTokens s)) \<and>
         (single_session (refreshTokens s) \<longrightarrow> single_session (refreshTokens s')) \<and>
         (r = Inr (new_RefreshToken rid now u v (tokenConfig_refreshExpiration c)) \<longleftrightarrow>
            rid \<notin> set (map rt_id (filter (\<lambda>t. rt_userId t \<noteq> u) (refreshTokens s))) \<and>
            v \<notin> set (map rt_token (filter (\<lambda>t. rt_userId t \<noteq> u) (refreshTokens s)))) \<and>
         (\<forall>us. createRefreshToken c now rid (s\<lparr>users := us\<rparr>) u v = (r, s'\<lparr>users := us\<rparr>))"
proof -
  let ?new = "new_RefreshToken rid now u v (tokenConfig_refreshExpiration c)"
  let ?rest = "refreshTokenRepository_deleteByUserId (refreshTokens s) u"
  have rest: "?rest = filter (\<lambda>t. rt_userId t \<noteq> u) (refreshTokens s)"
    by (simp add: refreshTokenRepository_deleteByUserId_def)
  have new_user: "rt_userId ?new = u"
    by (simp add: new_RefreshToken_def)
  from tokens_after_create [OF assms]
  consider (ok) "r = Inr ?new" "refreshTokens s' = ?rest @ [?new]"
      "rid \<notin> set (map rt_id ?rest)" "v \<notin> set (map rt_token ?rest)"
    | (refused) "r = Inl (StoreFailure ''Unique constraint failed'')" "refreshTokens s' = ?rest"
      "rid \<in> set (map rt_id ?rest) \<or> v \<in> set (map rt_token ?rest)"
    by blast
  then have main:
    "tokens_of u (refreshTokens s') = (case r of Inr tok \<Rightarrow> [tok] | Inl e \<Rightarrow> []) \<and>
     (\<forall>w. w \<noteq> u \<longrightarrow> tokens_of w (refreshTokens s') = tokens_of w (refreshTokens s)) \<and>
     (single_session (refreshTokens s) \<longrightarrow> single_session (refreshTokens s')) \<and>
     (r = Inr ?new \<longleftrightarrow> rid \<notin> set (map rt_id ?rest) \<and> v \<notin> set (map rt_token ?rest))"
  proof cases
    case ok
    have a: "tokens_of u (refreshTokens s') = [?new]"
      using tokens_of_delete_same [of u "refreshTokens s"] new_user
      by (simp add: ok tokens_of_def)
    have b: "\<forall>w. w \<noteq> u \<longrightarrow> tokens_of w (refreshTokens s') = tokens_of w (refreshTokens s)"
      using tokens_of_delete_other [of _ u "refreshTokens s"] new_user
      by (simp add: ok tokens_of_def)
    have c: "single_session (refreshTokens s) \<longrightarrow> single_session (refreshTokens s')"
      using single_session_delete [of "refreshTokens s" u] user_not_in_delete [of u "refreshTokens s"]
        new_user
      by (simp add: ok single_session_def)
    show ?thesis using a b c ok by simp
  next
    case refused
    have a: "tokens_of u (refreshTokens s') = []"
      by (simp add: refused tokens_of_delete_same)
    have b: "\<forall>w. w \<noteq> u \<longrightarrow> tokens_of w (refreshTokens s') = tokens_of w (refreshTokens s)"
      by (simp add: refused tokens_of_delete_other)
    have c: "single_session (refreshTokens s) \<longrightarrow> single_session (refreshTokens s')"
      by (simp add: refused single_session_delete)
    show ?thesis using a b c refused by auto
  qed
  have len: "length (tokens_of u (refreshTokens s')) \<le> 1"
    using main by (cases r) simp_all
  have nocheck: "\<forall>us. createRefreshToken c now rid (s\<lparr>users := us\<rparr>) u v = (r, s'\<lparr>users := us\<rparr>)"
    using assms
    by (auto simp: createRefreshToken_def Let_def split: sum.splits)
  show ?thesis
    using main len nocheck unfolding rest by blast
qed

theorem createRefreshToken_single_session_witness:
  "tokens_of ''alice'' (refreshTokens ledger_sys) = [tok_live] \<and>
   createRefreshToken default_config 0 ''r8'' ledger_sys ''alice'' ''t1'' = (Inr tok_first, sys_first) \<and>
   tokens_of ''alice'' (refreshTokens sys_first) = [tok_first] \<and>
   tokens_of ''bob'' (refreshTokens sys_first) = [tok_expired] \<and>
   single_session (refreshTokens ledger_sys) \<and> single_session (refreshTokens sys_first) \<and>
   userRepository_findById (users ledger_sys) ''zoe'' = None \<and>
   fst (createRefreshToken default_config 0 ''r7'' ledger_sys ''zoe'' ''tZ'') = Inr tok_zoe"
  using createRefreshToken_single_session [OF create_first]
    createRefreshToken_single_session [OF create_zoe] create_first create_zoe
  by (simp add: tokens_of_def single_session_def ledger_sys_def userRepository_findById_def
      tok_live_def tok_expired_def tok_revoked_def user_alice_def user_bob_def)

text \<open>
  C4. For every user and two distinct token values: when \<open>createRefreshToken\<close> has
  issued the first value and then the second to the same user, \<open>validateRefreshToken\<close>
  of the first value fails with AuthenticationException (invalid), the token being
  deleted by the replacement, and \<open>validateRefreshToken\<close> of the second value returns
  the token issued last, at any time that is not past that token's expiry.
\<close>

theorem replacement_invalidates_previous:
  assumes "createRefreshToken c now1 rid1 s u t1 = (Inr tok1, s1)"
    and "createRefreshToken c now2 rid2 s1 u t2 = (Inr tok2, s2)"
    and "t1 \<noteq> t2"
    and "\<not> rt_isExpired now tok2"
  shows "validateRefreshToken now s2 t1 = Inl (AuthenticationException ''Invalid refresh token'') \<and>
         validateRefreshToken now s2 t2 = Inr tok2"
proof -
  let ?rest = "refreshTokenRepository_deleteByUserId (refreshTokens s) u"
  from tokens_after_create [OF assms(1)]
  have s1: "refreshTokens s1 = ?rest @ [tok1]" and fresh1: "t1 \<notin> set (map rt_token ?rest)"
    and tok1: "tok1 = new_RefreshToken rid1 now1 u t1 (tokenConfig_refreshExpiration c)"
    by auto
  have rest1: "refreshTokenRepository_deleteByUserId (refreshTokens s1) u = ?rest"
    by (simp add: s1 tok1 refreshTokenRepository_deleteByUserId_def new_RefreshToken_def)
  from tokens_after_create [OF assms(2)]
  have s2: "refreshTokens s2 = ?rest @ [tok2]" and fresh2: "t2 \<notin> set (map rt_token ?rest)"
    and tok2: "tok2 = new_RefreshToken rid2 now2 u t2 (tokenConfig_refreshExpiration c)"
    unfolding rest1 by auto
  have none1: "find (\<lambda>t. rt_token t = t1) ?rest = None"
    using fresh1 by (auto simp: find_None_iff)
  have none2: "find (\<lambda>t. rt_token t = t2) ?rest = None"
    using fresh2 by (auto simp: find_None_iff)
  have v2: "rt_token tok2 = t2" and nr: "\<not> revoked tok2"
    by (simp_all add: tok2 new_RefreshToken_def)
  have f1: "refreshTokenRepository_findByToken (refreshTokens s2) t1 = None"
    using none1 v2 assms(3)
    by (simp add: refreshTokenRepository_findByToken_def s2 find_append_last)
  have f2: "refreshTokenRepository_findByToken (refreshTokens s2) t2 = Some tok2"
    using none2 v2
    by (simp add: refreshTokenRepository_findByToken_def s2 find_append_last)
  show ?thesis
    using f1 f2 nr assms(4) by (simp add: validateRefreshToken_def isRevoked_def)
qed

theorem replacement_invalidates_previous_witness:
  "createRefreshToken default_config 0 ''r8'' ledger_sys ''alice'' ''t1'' = (Inr tok_first, sys_first) \<and>
   createRefreshToken default_config 5 ''r9'' sys_first ''alice'' ''t2'' = (Inr tok_second, sys_second) \<and>
   ''t1'' \<noteq> ''t2'' \<and> \<not> rt_isExpired 100 tok_second \<and>
   validateRefreshToken 100 sys_second ''t1'' = Inl (AuthenticationException ''Invalid refresh token'') \<and>
   validateRefreshToken 100 sys_second ''t2'' = Inr tok_second"
proof -
  have ne: "''t1'' \<noteq> ''t2''" by simp
  have live: "\<not> rt_isExpired 100 tok_second"
    by (simp add: rt_isExpired_def tok_second_def)
  show ?thesis
    using replacement_invalidates_previous [OF create_first create_second ne live]
      create_first create_second ne live
    by simp
qed

end
